theory Spec2Isabelle
  imports Complex_Main
begin

section \<open>The convoy motion detector (motion\_detector.py)\<close>

text \<open>
  The class \<open>MotionDetector\<close> is modelled by explicit state passing: every method takes
  the object and returns it updated. What a method emits (messages published on the LCM
  bus, lines printed on the console) is appended, in program order, to the field
  \<open>effects\<close>, so that the number and the order of the emissions can be stated.
  The camera, the background subtractor, the LCM handle and the thread handles are
  opaque collaborators and are not fields of the model; the sensor's verdict, the clock
  readings and the received payloads are arguments of the functions that read them.
\<close>

subsection \<open>Values rendered by f-strings\<close>

datatype exn = DecodeError | IndexError

text \<open>
  A formatted string is kept as the list of its pieces: the literal text, and the values
  Python renders into it. \<open>Now fmt\<close> stands for \<open>datetime.now().strftime(fmt)\<close>, the
  wall clock rendered at the moment the string is built. Python floats are read as real
  numbers (rounding is not modelled; no statement below depends on it).
\<close>

datatype piece =
    Lit string
  | IntV int
  | FloatV real
  | BoolV bool
  | StrV string
  | ExnV exn
  | Now string

type_synonym fstring = "piece list"

subsection \<open>Messages of package convoy\<close>

text \<open>
  Modelled from the spec: the generated LCM classes \<open>heartbeat_t\<close>, \<open>warning_t\<close>,
  \<open>mode_t\<close> and \<open>status_t\<close> (package \<open>convoy\<close>) are not among the sources. Their
  fields are those of section 6 of the specification; the values stored in them are
  Python integers. A payload on the bus is the encoding of one of the four messages, or
  bytes that encode none; \<open>decode\<close> of a class accepts the encodings of that class
  and raises on everything else. \<open>encode\<close> and \<open>publish\<close> are taken to succeed.
\<close>

record heartbeat_t =
  hb_timestamp :: int
  hb_vehicle_id :: int

record warning_t =
  w_timestamp :: int
  w_vehicle_id :: int
  w_danger_detected :: bool
  w_description :: string

record mode_t =
  m_timestamp :: int
  m_vehicle_id :: int
  m_mode :: int
  m_mode_description :: string

record status_t =
  st_timestamp :: int
  st_vehicle_id :: int
  st_driving_mode :: int
  st_motion_detected :: bool
  st_brake_lights_on :: bool
  st_system_running :: bool
  st_status_message :: fstring

datatype lcm_data =
    Enc_heartbeat heartbeat_t
  | Enc_warning warning_t
  | Enc_mode mode_t
  | Enc_status status_t
  | Malformed

fun warning_t_decode :: "lcm_data \<Rightarrow> exn + warning_t" where
  "warning_t_decode (Enc_warning w) = Inr w"
| "warning_t_decode _ = Inl DecodeError"

fun mode_t_decode :: "lcm_data \<Rightarrow> exn + mode_t" where
  "mode_t_decode (Enc_mode m) = Inr m"
| "mode_t_decode _ = Inl DecodeError"

subsection \<open>The object\<close>

datatype effect =
    Publish string lcm_data
  | Print fstring

record detector =
  camera_id :: int
  threshold :: int
  min_area :: int
  vehicle_id :: int
  driving_mode :: int
  motion_detected :: bool
  brake_lights_on :: bool
  running :: bool
  log_messages :: "fstring list"
  effects :: "effect list"

text \<open>\<open>__init__\<close>: mode 0, no motion, brake lights off, not running, empty log.\<close>

definition MotionDetector_init :: "int \<Rightarrow> int \<Rightarrow> int \<Rightarrow> int \<Rightarrow> detector" where
  "MotionDetector_init cam thr area vid =
     \<lparr>camera_id = cam, threshold = thr, min_area = area, vehicle_id = vid,
      driving_mode = 0, motion_detected = False, brake_lights_on = False,
      running = False, log_messages = [], effects = []\<rparr>"

text \<open>The messages published so far, oldest first.\<close>

fun published :: "effect list \<Rightarrow> (string \<times> lcm_data) list" where
  "published [] = []"
| "published (Publish c d # es) = (c, d) # published es"
| "published (Print l # es) = published es"

definition print_line :: "fstring \<Rightarrow> detector \<Rightarrow> detector" where
  "print_line l s = s\<lparr>effects := effects s @ [Print l]\<rparr>"

definition lcm_publish :: "string \<Rightarrow> lcm_data \<Rightarrow> detector \<Rightarrow> detector" where
  "lcm_publish channel d s = s\<lparr>effects := effects s @ [Publish channel d]\<rparr>"

text \<open>\<open>int(x)\<close> on a float truncates towards zero.\<close>

definition py_int :: "real \<Rightarrow> int" where
  "py_int x = (if 0 \<le> x then \<lfloor>x\<rfloor> else \<lceil>x\<rceil>)"

text \<open>\<open>xs[i]\<close>: a negative index counts from the end, an index out of range raises.\<close>

definition py_getitem :: "'a list \<Rightarrow> int \<Rightarrow> exn + 'a" where
  "py_getitem xs i =
     (if 0 \<le> i
      then (if nat i < length xs then Inr (xs ! nat i) else Inl IndexError)
      else (if nat (- i) \<le> length xs then Inr (xs ! (length xs - nat (- i)))
            else Inl IndexError))"

subsection \<open>Logging\<close>

text \<open>
  \<open>log_event\<close> prefixes the message with the wall clock (milliseconds: the last three
  digits of \<open>%f\<close> are cut off), appends the entry to \<open>log_messages\<close> and prints it.
\<close>

definition log_event :: "fstring \<Rightarrow> detector \<Rightarrow> detector" where
  "log_event message s =
     (let log_entry = [Lit ''['', Now ''%Y-%m-%d %H:%M:%S.%f'', Lit ''] ''] @ message
      in print_line log_entry (s\<lparr>log_messages := log_messages s @ [log_entry]\<rparr>))"

subsection \<open>Brake lights\<close>

definition turn_on_brake_lights :: "detector \<Rightarrow> detector" where
  "turn_on_brake_lights s =
     (if \<not> brake_lights_on s
      then print_line [Lit ''['', Now ''%H:%M:%S'', Lit ''] BRAKE LIGHTS ON'']
             (s\<lparr>brake_lights_on := True\<rparr>)
      else s)"

definition turn_off_brake_lights :: "detector \<Rightarrow> detector" where
  "turn_off_brake_lights s =
     (if brake_lights_on s
      then print_line [Lit ''['', Now ''%H:%M:%S'', Lit ''] BRAKE LIGHTS OFF'']
             (s\<lparr>brake_lights_on := False\<rparr>)
      else s)"

subsection \<open>Warnings\<close>

text \<open>\<open>timestamp\<close> is in seconds (a float); the message carries microseconds.\<close>

definition send_warning_message :: "real \<Rightarrow> string \<Rightarrow> detector \<Rightarrow> detector" where
  "send_warning_message timestamp description s =
     (let warning = \<lparr>w_timestamp = py_int (timestamp * 1000000),
                     w_vehicle_id = vehicle_id s,
                     w_danger_detected = True,
                     w_description = description\<rparr>
      in log_event [Lit ''Warning message sent from vehicle '', IntV (vehicle_id s),
                    Lit '': '', FloatV timestamp]
           (lcm_publish ''WARNING'' (Enc_warning warning) s))"

definition handle_warning_message :: "real \<Rightarrow> detector \<Rightarrow> detector" where
  "handle_warning_message timestamp s =
     (if driving_mode s = 2
      then log_event [Lit ''Warning received and repeated: '', FloatV timestamp]
             (send_warning_message timestamp ''Warning relayed'' (turn_on_brake_lights s))
      else s)"

text \<open>
  \<open>_handle_warning_message\<close>, the subscriber of channel WARNING. Everything raised in
  its body is caught and logged; in the model only \<open>decode\<close> raises.
\<close>

definition lcm_handle_warning_message :: "string \<Rightarrow> lcm_data \<Rightarrow> detector \<Rightarrow> detector" where
  "lcm_handle_warning_message channel d s =
     (case warning_t_decode d of
        Inl e \<Rightarrow> log_event [Lit ''Error handling warning message: '', ExnV e] s
      | Inr msg \<Rightarrow>
          if w_vehicle_id msg \<noteq> vehicle_id s
          then (let timestamp = real_of_int (w_timestamp msg) / 1000000;
                    s1 = log_event [Lit ''Received warning from vehicle '',
                                    IntV (w_vehicle_id msg), Lit '': '',
                                    StrV (w_description msg)] s
                in if driving_mode s1 = 2 then handle_warning_message timestamp s1 else s1)
          else s)"

text \<open>\<open>_handle_mode_message\<close>, the subscriber of channel MODE.\<close>

definition lcm_handle_mode_message :: "string \<Rightarrow> lcm_data \<Rightarrow> detector \<Rightarrow> detector" where
  "lcm_handle_mode_message channel d s =
     (case mode_t_decode d of
        Inl e \<Rightarrow> log_event [Lit ''Error handling mode message: '', ExnV e] s
      | Inr msg \<Rightarrow>
          if m_vehicle_id msg \<noteq> vehicle_id s
          then log_event [Lit ''Vehicle '', IntV (m_vehicle_id msg),
                          Lit '' changed mode to '', IntV (m_mode msg), Lit '': '',
                          StrV (m_mode_description msg)] s
          else s)"

subsection \<open>Driving mode\<close>

definition mode_names :: "string list" where
  "mode_names = [''Single Vehicle'', ''Head in Convoy'', ''In Convoy'']"

text \<open>
  \<open>set_driving_mode\<close>; \<open>now\<close> is the reading of \<open>time.time()\<close>. The table lookup
  \<open>mode_names[mode]\<close> comes after the assignment to \<open>driving_mode\<close> and is the only
  operation of the method that can raise.
\<close>

definition set_driving_mode :: "int \<Rightarrow> real \<Rightarrow> detector \<Rightarrow> exn + detector" where
  "set_driving_mode mode now s =
     (if mode \<in> set [0, 1, 2]
      then (let old_mode = driving_mode s;
                s1 = s\<lparr>driving_mode := mode\<rparr>
            in case py_getitem mode_names mode of
                 Inl e \<Rightarrow> Inl e
               | Inr name \<Rightarrow>
                   (let mode_msg = \<lparr>m_timestamp = py_int (now * 1000000),
                                    m_vehicle_id = vehicle_id s1,
                                    m_mode = mode,
                                    m_mode_description = name\<rparr>;
                        s2 = lcm_publish ''MODE'' (Enc_mode mode_msg) s1;
                        s3 = log_event [Lit ''Driving mode changed from '', IntV old_mode,
                                        Lit '' to '', IntV mode, Lit '' ('', StrV name,
                                        Lit '')''] s2
                    in Inr (print_line [Lit ''Driving mode set to: '', IntV mode,
                                        Lit '' ('', StrV name, Lit '')''] s3)))
      else Inr (print_line [Lit ''Invalid driving mode: '', IntV mode] s))"

text \<open>\<open>handle_driving_mode\<close>; \<open>now\<close> is the reading of \<open>time.time()\<close> at its start.\<close>

definition handle_driving_mode :: "real \<Rightarrow> detector \<Rightarrow> detector" where
  "handle_driving_mode now s =
     (let current_time = now
      in if driving_mode s = 0
         then (if motion_detected s
               then log_event [Lit ''Mode 0: Object detected, brake lights ON'']
                      (turn_on_brake_lights s)
               else turn_off_brake_lights s)
         else if driving_mode s = 1
         then (if motion_detected s
               then log_event [Lit ''Mode 1: Object detected, brake lights ON, warning sent'']
                      (send_warning_message current_time ''Motion detected''
                         (turn_on_brake_lights s))
               else turn_off_brake_lights s)
         else if driving_mode s = 2
         then s
         else s)"

subsection \<open>The sensing loop\<close>

text \<open>
  One iteration of \<open>process_frame\<close> reads a frame (\<open>s_ret\<close>: the read succeeded), asks
  the sensor for its verdict (\<open>s_motion\<close>), stores it, calls \<open>handle_driving_mode\<close>
  (\<open>s_time\<close>: the clock it reads) and polls the keyboard (\<open>s_quit\<close>: the key was q).
  The loop runs over the samples the sensor delivers while \<open>running\<close> holds.
\<close>

record sample =
  s_ret :: bool
  s_motion :: bool
  s_time :: real
  s_quit :: bool

fun process_frame :: "sample list \<Rightarrow> detector \<Rightarrow> detector" where
  "process_frame [] s = s"
| "process_frame (x # xs) s =
     (if running s
      then (if \<not> s_ret x
            then print_line [Lit ''Failed to read frame''] s
            else (let s1 = handle_driving_mode (s_time x) (s\<lparr>motion_detected := s_motion x\<rparr>)
                  in if s_quit x then s1 else process_frame xs s1))
      else s)"

subsection \<open>Heartbeat\<close>

text \<open>
  The body of the loop of \<open>send_heartbeat\<close>, one tick; \<open>now\<close> is the reading of
  \<open>time.time()\<close>. The loop runs one tick per clock reading while \<open>running\<close> holds.
\<close>

definition heartbeat_tick :: "real \<Rightarrow> detector \<Rightarrow> detector" where
  "heartbeat_tick now s =
     (if driving_mode s \<in> set [1, 2]
      then (let current_time = py_int (now * 1000000);
                heartbeat = \<lparr>hb_timestamp = current_time, hb_vehicle_id = vehicle_id s\<rparr>
            in log_event [Lit ''Heartbeat sent from vehicle '', IntV (vehicle_id s),
                          Lit '': '', IntV current_time]
                 (lcm_publish ''HEARTBEAT'' (Enc_heartbeat heartbeat) s))
      else s)"

fun send_heartbeat :: "real list \<Rightarrow> detector \<Rightarrow> detector" where
  "send_heartbeat [] s = s"
| "send_heartbeat (now # ticks) s =
     (if running s then send_heartbeat ticks (heartbeat_tick now s) else s)"

subsection \<open>Status, logs, commands\<close>

definition send_status_message :: "real \<Rightarrow> detector \<Rightarrow> detector" where
  "send_status_message now s =
     (let status = \<lparr>st_timestamp = py_int (now * 1000000),
                    st_vehicle_id = vehicle_id s,
                    st_driving_mode = driving_mode s,
                    st_motion_detected = motion_detected s,
                    st_brake_lights_on = brake_lights_on s,
                    st_system_running = running s,
                    st_status_message = [Lit ''Vehicle '', IntV (vehicle_id s),
                                         Lit '' operational'']\<rparr>
      in log_event [Lit ''Status message sent from vehicle '', IntV (vehicle_id s)]
           (lcm_publish ''STATUS'' (Enc_status status) s))"

text \<open>
  \<open>show_status\<close>: the header is printed before the line that looks the mode up in the
  table, so a failing lookup would raise after one line.
\<close>

definition show_status :: "detector \<Rightarrow> exn + detector" where
  "show_status s =
     (let s1 = print_line [Lit ''\<newline>=== Status ===''] s
      in case py_getitem mode_names (driving_mode s1) of
           Inl e \<Rightarrow> Inl e
         | Inr name \<Rightarrow>
             Inr (print_line []
                   (print_line [Lit ''System Running: '', BoolV (running s1)]
                     (print_line [Lit ''Brake Lights: '',
                                  StrV (if brake_lights_on s1 then ''ON'' else ''OFF'')]
                       (print_line [Lit ''Motion Detected: '', BoolV (motion_detected s1)]
                         (print_line [Lit ''Driving Mode: '', IntV (driving_mode s1),
                                      Lit '' ('', StrV name, Lit '')''] s1))))))"

text \<open>\<open>show_logs\<close> prints the last ten entries (\<open>log_messages[-10:]\<close>).\<close>

definition show_logs :: "detector \<Rightarrow> detector" where
  "show_logs s =
     print_line []
       (fold print_line (drop (length (log_messages s) - 10) (log_messages s))
          (print_line [Lit ''\<newline>=== Recent Logs ===''] s))"

definition stop :: "detector \<Rightarrow> detector" where
  "stop s = print_line [Lit ''Motion detection system stopped''] (s\<lparr>running := False\<rparr>)"

text \<open>
  One command of the console loop of \<open>start\<close> (the line read, stripped and in lower
  case), but for \<open>q\<close>, which leaves the loop.
\<close>

definition command :: "string \<Rightarrow> real \<Rightarrow> detector \<Rightarrow> exn + detector" where
  "command cmd now s =
     (if cmd \<in> set [''0'', ''1'', ''2'']
      then set_driving_mode (if cmd = ''0'' then 0 else if cmd = ''1'' then 1 else 2) now s
      else if cmd = ''s'' then show_status s
      else if cmd = ''l'' then Inr (show_logs s)
      else if cmd = ''st'' then Inr (send_status_message now s)
      else if cmd = ''w'' then Inr (send_warning_message now ''Manual test warning'' s)
      else Inr s)"

subsection \<open>Histories of calls\<close>

text \<open>
  The threads of the program (sensing, heartbeat, LCM handler, console) all act on the
  one object through its methods. A history is a sequence of such calls, each with the
  inputs it reads from the environment; it is run from left to right, and stops at the
  first call that raises.
\<close>

datatype call =
    Set_driving_mode int real
  | Command string real
  | Frame sample
  | Handle_driving_mode real
  | Turn_on_brake_lights
  | Turn_off_brake_lights
  | Heartbeat_tick real
  | Send_warning_message real string
  | Handle_warning_message real
  | Lcm_warning string lcm_data
  | Lcm_mode string lcm_data
  | Log_event fstring
  | Send_status_message real
  | Show_status
  | Show_logs
  | Start_running
  | Stop

fun step :: "call \<Rightarrow> detector \<Rightarrow> exn + detector" where
  "step (Set_driving_mode mode now) s = set_driving_mode mode now s"
| "step (Command cmd now) s = command cmd now s"
| "step (Frame x) s = Inr (process_frame [x] s)"
| "step (Handle_driving_mode now) s = Inr (handle_driving_mode now s)"
| "step Turn_on_brake_lights s = Inr (turn_on_brake_lights s)"
| "step Turn_off_brake_lights s = Inr (turn_off_brake_lights s)"
| "step (Heartbeat_tick now) s = Inr (send_heartbeat [now] s)"
| "step (Send_warning_message t d) s = Inr (send_warning_message t d s)"
| "step (Handle_warning_message t) s = Inr (handle_warning_message t s)"
| "step (Lcm_warning c d) s = Inr (lcm_handle_warning_message c d s)"
| "step (Lcm_mode c d) s = Inr (lcm_handle_mode_message c d s)"
| "step (Log_event m) s = Inr (log_event m s)"
| "step (Send_status_message now) s = Inr (send_status_message now s)"
| "step Show_status s = show_status s"
| "step Show_logs s = Inr (show_logs s)"
| "step Start_running s = Inr (s\<lparr>running := True\<rparr>)"
| "step Stop s = Inr (stop s)"

fun run :: "call list \<Rightarrow> detector \<Rightarrow> exn + detector" where
  "run [] s = Inr s"
| "run (c # cs) s = (case step c s of Inl e \<Rightarrow> Inl e | Inr s' \<Rightarrow> run cs s')"


section \<open>Properties\<close>

subsection \<open>What the primitives leave alone\<close>

lemma published_append: "published (xs @ ys) = published xs @ published ys"
  by (induction xs rule: published.induct) simp_all

lemma print_line_fields:
  "vehicle_id (print_line l s) = vehicle_id s"
  "driving_mode (print_line l s) = driving_mode s"
  "motion_detected (print_line l s) = motion_detected s"
  "brake_lights_on (print_line l s) = brake_lights_on s"
  "running (print_line l s) = running s"
  "log_messages (print_line l s) = log_messages s"
  "effects (print_line l s) = effects s @ [Print l]"
  by (simp_all add: print_line_def)

lemma lcm_publish_fields:
  "vehicle_id (lcm_publish c d s) = vehicle_id s"
  "driving_mode (lcm_publish c d s) = driving_mode s"
  "motion_detected (lcm_publish c d s) = motion_detected s"
  "brake_lights_on (lcm_publish c d s) = brake_lights_on s"
  "running (lcm_publish c d s) = running s"
  "log_messages (lcm_publish c d s) = log_messages s"
  "effects (lcm_publish c d s) = effects s @ [Publish c d]"
  by (simp_all add: lcm_publish_def)

lemma log_event_fields:
  "vehicle_id (log_event m s) = vehicle_id s"
  "driving_mode (log_event m s) = driving_mode s"
  "motion_detected (log_event m s) = motion_detected s"
  "brake_lights_on (log_event m s) = brake_lights_on s"
  "running (log_event m s) = running s"
  "log_messages (log_event m s) =
     log_messages s @ [[Lit ''['', Now ''%Y-%m-%d %H:%M:%S.%f'', Lit ''] ''] @ m]"
  "effects (log_event m s) =
     effects s @ [Print ([Lit ''['', Now ''%Y-%m-%d %H:%M:%S.%f'', Lit ''] ''] @ m)]"
  by (simp_all add: log_event_def Let_def print_line_fields)

lemmas prim_fields = print_line_fields lcm_publish_fields log_event_fields

lemma brake_fields:
  "vehicle_id (turn_on_brake_lights s) = vehicle_id s"
  "driving_mode (turn_on_brake_lights s) = driving_mode s"
  "log_messages (turn_on_brake_lights s) = log_messages s"
  "brake_lights_on (turn_on_brake_lights s) = True"
  "published (effects (turn_on_brake_lights s)) = published (effects s)"
  "vehicle_id (turn_off_brake_lights s) = vehicle_id s"
  "driving_mode (turn_off_brake_lights s) = driving_mode s"
  "log_messages (turn_off_brake_lights s) = log_messages s"
  "brake_lights_on (turn_off_brake_lights s) = False"
  "published (effects (turn_off_brake_lights s)) = published (effects s)"
  by (simp_all add: turn_on_brake_lights_def turn_off_brake_lights_def prim_fields
      published_append)

lemma send_warning_fields:
  "vehicle_id (send_warning_message t d s) = vehicle_id s"
  "driving_mode (send_warning_message t d s) = driving_mode s"
  "brake_lights_on (send_warning_message t d s) = brake_lights_on s"
  "published (effects (send_warning_message t d s)) =
     published (effects s) @
       [(''WARNING'',
         Enc_warning \<lparr>w_timestamp = py_int (t * 1000000), w_vehicle_id = vehicle_id s,
                      w_danger_detected = True, w_description = d\<rparr>)]"
  by (simp_all add: send_warning_message_def Let_def prim_fields published_append)

lemma py_getitem_mode_names:
  "py_getitem mode_names 0 = Inr ''Single Vehicle''"
  "py_getitem mode_names 1 = Inr ''Head in Convoy''"
  "py_getitem mode_names 2 = Inr ''In Convoy''"
  by (simp_all add: py_getitem_def mode_names_def)

lemma py_getitem_mode_names_valid:
  assumes "m \<in> {0, 1, 2}"
  shows "py_getitem mode_names m =
           Inr (if m = 0 then ''Single Vehicle'' else if m = 1 then ''Head in Convoy''
                else ''In Convoy'')"
  using assms py_getitem_mode_names by auto

lemma fold_print_line_keeps:
  "driving_mode (fold print_line ls s) = driving_mode s"
  "brake_lights_on (fold print_line ls s) = brake_lights_on s"
  by (induction ls arbitrary: s) (simp_all add: print_line_fields)

lemma handle_warning_message_mode:
  "driving_mode (handle_warning_message t s) = driving_mode s"
  by (simp add: handle_warning_message_def prim_fields brake_fields send_warning_fields)

lemma lcm_handle_warning_message_mode:
  "driving_mode (lcm_handle_warning_message c d s) = driving_mode s"
  by (simp add: lcm_handle_warning_message_def Let_def prim_fields handle_warning_message_mode
      split: sum.splits)

lemma lcm_handle_mode_message_keeps:
  "driving_mode (lcm_handle_mode_message c d s) = driving_mode s"
  "brake_lights_on (lcm_handle_mode_message c d s) = brake_lights_on s"
  by (simp_all add: lcm_handle_mode_message_def prim_fields split: sum.splits)

lemma handle_driving_mode_mode:
  "driving_mode (handle_driving_mode now s) = driving_mode s"
  by (simp add: handle_driving_mode_def Let_def prim_fields brake_fields send_warning_fields)

lemma handle_driving_mode_member:
  "driving_mode s = 2 \<Longrightarrow> handle_driving_mode now s = s"
  by (simp add: handle_driving_mode_def)

lemma process_frame_mode:
  "driving_mode (process_frame xs s) = driving_mode s"
  by (induction xs arbitrary: s)
    (simp_all add: Let_def print_line_fields handle_driving_mode_mode)

lemma process_frame_member_brake:
  "driving_mode s = 2 \<Longrightarrow> brake_lights_on (process_frame xs s) = brake_lights_on s"
  by (induction xs arbitrary: s)
    (simp_all add: Let_def print_line_fields handle_driving_mode_member)

lemma heartbeat_tick_keeps:
  "driving_mode (heartbeat_tick now s) = driving_mode s"
  "brake_lights_on (heartbeat_tick now s) = brake_lights_on s"
  "running (heartbeat_tick now s) = running s"
  by (simp_all add: heartbeat_tick_def Let_def prim_fields)

lemma send_heartbeat_keeps:
  "driving_mode (send_heartbeat ticks s) = driving_mode s"
  "brake_lights_on (send_heartbeat ticks s) = brake_lights_on s"
  by (induction ticks arbitrary: s) (simp_all add: heartbeat_tick_keeps)

lemma send_status_message_keeps:
  "driving_mode (send_status_message now s) = driving_mode s"
  "brake_lights_on (send_status_message now s) = brake_lights_on s"
  by (simp_all add: send_status_message_def Let_def prim_fields)

lemma show_logs_keeps:
  "driving_mode (show_logs s) = driving_mode s"
  "brake_lights_on (show_logs s) = brake_lights_on s"
  by (simp_all add: show_logs_def print_line_fields fold_print_line_keeps)

lemma stop_keeps:
  "driving_mode (stop s) = driving_mode s"
  "brake_lights_on (stop s) = brake_lights_on s"
  by (simp_all add: stop_def print_line_fields)

subsection \<open>No call raises, and the mode stays in the table\<close>

lemma set_driving_mode_returns:
  "\<exists>s'. set_driving_mode m now s = Inr s' \<and>
        brake_lights_on s' = brake_lights_on s \<and>
        (driving_mode s' = driving_mode s \<or> driving_mode s' \<in> {0, 1, 2})"
proof (cases "m \<in> {0, 1, 2}")
  case True
  then have valid: "m \<in> set [0, 1, 2]" by simp
  show ?thesis
    unfolding set_driving_mode_def Let_def
    by (simp only: valid if_True py_getitem_mode_names_valid [OF True] sum.case)
       (use True in \<open>simp add: prim_fields\<close>)
next
  case False
  then show ?thesis by (simp add: set_driving_mode_def print_line_fields)
qed

lemma show_status_returns:
  assumes "driving_mode s \<in> {0, 1, 2}"
  shows "\<exists>s'. show_status s = Inr s' \<and> brake_lights_on s' = brake_lights_on s \<and>
              driving_mode s' = driving_mode s"
  unfolding show_status_def Let_def
  using assms by (auto simp add: print_line_fields py_getitem_mode_names)

lemma command_returns:
  assumes "driving_mode s \<in> {0, 1, 2}"
  shows "\<exists>s'. command cmd now s = Inr s' \<and> brake_lights_on s' = brake_lights_on s \<and>
              driving_mode s' \<in> {0, 1, 2}"
proof -
  from set_driving_mode_returns assms
  have a: "\<exists>s'. set_driving_mode k now s = Inr s' \<and> brake_lights_on s' = brake_lights_on s \<and>
              driving_mode s' \<in> {0, 1, 2}" for k
    by metis
  from show_status_returns [OF assms] assms
  have b: "\<exists>s'. show_status s = Inr s' \<and> brake_lights_on s' = brake_lights_on s \<and>
              driving_mode s' \<in> {0, 1, 2}"
    by metis
  show ?thesis
    unfolding command_def
    using a b assms
    by (simp add: show_logs_keeps send_status_message_keeps send_warning_fields del: set_simps)
qed

lemma step_returns:
  assumes "driving_mode s \<in> {0, 1, 2}"
  shows "\<exists>s'. step c s = Inr s' \<and> driving_mode s' \<in> {0, 1, 2}"
proof (cases c)
  case (Set_driving_mode m now)
  with set_driving_mode_returns [of m now s] assms show ?thesis by auto
next
  case (Command cmd now)
  with command_returns [OF assms, of cmd now] show ?thesis by auto
next
  case Show_status
  with show_status_returns [OF assms] assms show ?thesis by auto
qed (use assms in \<open>simp_all add: process_frame_mode handle_driving_mode_mode brake_fields
      send_heartbeat_keeps send_warning_fields handle_warning_message_mode
      lcm_handle_warning_message_mode lcm_handle_mode_message_keeps log_event_fields
      send_status_message_keeps show_logs_keeps stop_keeps
      del: process_frame.simps send_heartbeat.simps\<close>)

lemma run_returns:
  assumes "driving_mode s \<in> {0, 1, 2}"
  shows "\<exists>s'. run cs s = Inr s' \<and> driving_mode s' \<in> {0, 1, 2}"
  using assms
proof (induction cs arbitrary: s)
  case Nil
  then show ?case by simp
next
  case (Cons c cs)
  from step_returns [OF Cons.prems, of c]
  obtain s1 where s1: "step c s = Inr s1" "driving_mode s1 \<in> {0, 1, 2}" by blast
  from Cons.IH [OF s1(2)] s1(1) show ?case by simp
qed

text \<open>
  In MEMBER mode the brake lights are changed by no call but the two warning handlers and
  the two brake methods themselves.
\<close>

lemma step_member_brake:
  assumes mode: "driving_mode s = 2" and st: "step c s = Inr s'"
    and c: "c \<noteq> Turn_on_brake_lights" "c \<noteq> Turn_off_brake_lights"
      "\<forall>t. c \<noteq> Handle_warning_message t" "\<forall>ch d. c \<noteq> Lcm_warning ch d"
  shows "brake_lights_on s' = brake_lights_on s"
proof -
  have inv: "driving_mode s \<in> {0, 1, 2}" using mode by simp
  show ?thesis
  proof (cases c)
    case (Set_driving_mode m now)
    with set_driving_mode_returns [of m now s] st show ?thesis by auto
  next
    case (Command cmd now)
    with command_returns [OF inv, of cmd now] st show ?thesis by auto
  next
    case Show_status
    with show_status_returns [OF inv] st show ?thesis by auto
  next
    case (Frame x)
    with process_frame_member_brake [OF mode, of "[x]"] st show ?thesis by auto
  next
    case (Handle_driving_mode now)
    with handle_driving_mode_member [OF mode, of now] st show ?thesis by auto
  next
    case (Heartbeat_tick now)
    with send_heartbeat_keeps(2) [of "[now]" s] st show ?thesis by auto
  qed (use st c in \<open>auto simp add: send_warning_fields lcm_handle_mode_message_keeps
        log_event_fields send_status_message_keeps show_logs_keeps stop_keeps\<close>)
qed


section \<open>The claims\<close>

subsection \<open>C1: a MEMBER relays a foreign warning\<close>



subsection \<open>C2: setting a valid mode\<close>



subsection \<open>C3: setting an invalid mode\<close>

text \<open>
  Claim C3. For a mode outside 0, 1, 2, \<open>set_driving_mode\<close> returns (it does not
  raise); the object is as before but for one printed line, "Invalid driving mode: m":
  the driving mode and every other field are unchanged, no message is published and no
  entry is appended to the log.
\<close>

theorem set_driving_mode_invalid:
  assumes "m \<notin> {0, 1, 2}"
  shows "\<exists>s'. set_driving_mode m now s = Inr s' \<and>
           s' = s\<lparr>effects := effects s @ [Print [Lit ''Invalid driving mode: '', IntV m]]\<rparr> \<and>
           driving_mode s' = driving_mode s \<and>
           published (effects s') = published (effects s) \<and>
           log_messages s' = log_messages s"
  using assms by (simp add: set_driving_mode_def print_line_def published_append)

theorem set_driving_mode_invalid_witness:
  "(7::int) \<notin> {0, 1, 2} \<and>
   set_driving_mode 7 5 (MotionDetector_init 0 25 500 1) =
     Inr ((MotionDetector_init 0 25 500 1)
            \<lparr>effects := [Print [Lit ''Invalid driving mode: '', IntV 7]]\<rparr>)"
proof -
  have h: "(7::int) \<notin> {0, 1, 2}" by simp
  from set_driving_mode_invalid [OF h, of 5 "MotionDetector_init 0 25 500 1"] h
  show ?thesis by (simp add: MotionDetector_init_def)
qed

subsection \<open>C4: messages of the vehicle's own are dropped\<close>

text \<open>
  Claim C4. A received warning or mode message whose \<open>vehicle_id\<close> is the local one
  leaves the object exactly as it was: no field changes (the brake lights included),
  nothing is published, nothing is printed and nothing is logged.
\<close>

theorem own_messages_dropped:
  "(w_vehicle_id w = vehicle_id s \<longrightarrow>
      lcm_handle_warning_message c (Enc_warning w) s = s) \<and>
   (m_vehicle_id m = vehicle_id s \<longrightarrow>
      lcm_handle_mode_message c' (Enc_mode m) s = s)"
  by (simp add: lcm_handle_warning_message_def lcm_handle_mode_message_def)

theorem own_messages_dropped_witness:
  "let s = (MotionDetector_init 0 25 500 1)\<lparr>driving_mode := 2\<rparr>;
       w = \<lparr>w_timestamp = 5000000, w_vehicle_id = 1, w_danger_detected = True,
            w_description = ''Motion detected''\<rparr>;
       m = \<lparr>m_timestamp = 5000000, m_vehicle_id = 1, m_mode = 1,
            m_mode_description = ''Head in Convoy''\<rparr>
   in w_vehicle_id w = vehicle_id s \<and> m_vehicle_id m = vehicle_id s \<and>
      lcm_handle_warning_message ''WARNING'' (Enc_warning w) s = s \<and>
      lcm_handle_mode_message ''MODE'' (Enc_mode m) s = s"
proof -
  let ?s = "(MotionDetector_init 0 25 500 1)\<lparr>driving_mode := 2\<rparr>"
  let ?w = "\<lparr>w_timestamp = 5000000, w_vehicle_id = 1, w_danger_detected = True,
              w_description = ''Motion detected''\<rparr>"
  let ?m = "\<lparr>m_timestamp = 5000000, m_vehicle_id = 1, m_mode = 1,
              m_mode_description = ''Head in Convoy''\<rparr>"
  have h1: "w_vehicle_id ?w = vehicle_id ?s" by (simp add: MotionDetector_init_def)
  have h2: "m_vehicle_id ?m = vehicle_id ?s" by (simp add: MotionDetector_init_def)
  from own_messages_dropped [of ?w ?s "''WARNING''" ?m "''MODE''"] h1 h2
  show ?thesis by (simp add: Let_def)
qed

subsection \<open>C5: heartbeats are sent in convoy modes only\<close>




subsection \<open>C6: the brake lights switch on edges only\<close>

text \<open>
  Claim C6, as the program has it. A request for the state the brake lights already
  have changes nothing and prints nothing. A request for the other state flips
  \<open>brake_lights_on\<close> and prints exactly one line, stamped with the wall clock:
  "BRAKE LIGHTS ON" or "BRAKE LIGHTS OFF". The line goes to the console only: neither
  method appends to \<open>log_messages\<close>. Repeating a request prints no second line.
\<close>

theorem brake_lights_edge_triggered:
  "(brake_lights_on s \<longrightarrow> turn_on_brake_lights s = s) \<and>
   (\<not> brake_lights_on s \<longrightarrow>
      turn_on_brake_lights s =
        s\<lparr>brake_lights_on := True,
          effects := effects s @
            [Print [Lit ''['', Now ''%H:%M:%S'', Lit ''] BRAKE LIGHTS ON'']]\<rparr>) \<and>
   (\<not> brake_lights_on s \<longrightarrow> turn_off_brake_lights s = s) \<and>
   (brake_lights_on s \<longrightarrow>
      turn_off_brake_lights s =
        s\<lparr>brake_lights_on := False,
          effects := effects s @
            [Print [Lit ''['', Now ''%H:%M:%S'', Lit ''] BRAKE LIGHTS OFF'']]\<rparr>) \<and>
   log_messages (turn_on_brake_lights s) = log_messages s \<and>
   log_messages (turn_off_brake_lights s) = log_messages s \<and>
   turn_on_brake_lights (turn_on_brake_lights s) = turn_on_brake_lights s \<and>
   turn_off_brake_lights (turn_off_brake_lights s) = turn_off_brake_lights s"
  by (simp add: turn_on_brake_lights_def turn_off_brake_lights_def print_line_def)

theorem brake_lights_edge_triggered_witness:
  "\<not> brake_lights_on (MotionDetector_init 0 25 500 1) \<and>
   turn_on_brake_lights (MotionDetector_init 0 25 500 1) =
     (MotionDetector_init 0 25 500 1)
       \<lparr>brake_lights_on := True,
        effects := [Print [Lit ''['', Now ''%H:%M:%S'', Lit ''] BRAKE LIGHTS ON'']]\<rparr> \<and>
   turn_off_brake_lights (MotionDetector_init 0 25 500 1) = MotionDetector_init 0 25 500 1 \<and>
   turn_on_brake_lights (turn_on_brake_lights (MotionDetector_init 0 25 500 1)) =
     turn_on_brake_lights (MotionDetector_init 0 25 500 1)"
proof -
  have h: "\<not> brake_lights_on (MotionDetector_init 0 25 500 1)"
    by (simp add: MotionDetector_init_def)
  from brake_lights_edge_triggered [of "MotionDetector_init 0 25 500 1"] h
  show ?thesis by (simp add: MotionDetector_init_def turn_on_brake_lights_def)
qed

text \<open>
  Claim C6 as it was written has the switch append an entry to the event log. On a new
  object the lights are off; switching them on turns them on and leaves the log empty.
\<close>

theorem brake_lights_switch_not_logged:
  "\<not> brake_lights_on (MotionDetector_init 0 25 500 1) \<and>
   brake_lights_on (turn_on_brake_lights (MotionDetector_init 0 25 500 1)) \<and>
   log_messages (turn_on_brake_lights (MotionDetector_init 0 25 500 1)) = []"
  by (simp add: MotionDetector_init_def turn_on_brake_lights_def print_line_def)

subsection \<open>C7: the samples true, true, false in SINGLE mode\<close>

text \<open>
  Claim C7, as the program has it. In mode 0, running, with the brake lights off, the
  sensing loop on the samples true, true, false prints "BRAKE LIGHTS ON" once and
  "BRAKE LIGHTS OFF" once (no line for the second true), publishes nothing, and ends
  with the lights off. The event log receives one entry "Mode 0: Object detected, brake
  lights ON" for each true sample, so two of them, and no entry for the lights going off.
\<close>

theorem single_mode_true_true_false:
  assumes "running s" and "driving_mode s = 0" and "\<not> brake_lights_on s"
  shows "let s' = process_frame
                    [\<lparr>s_ret = True, s_motion = True, s_time = t1, s_quit = False\<rparr>,
                     \<lparr>s_ret = True, s_motion = True, s_time = t2, s_quit = False\<rparr>,
                     \<lparr>s_ret = True, s_motion = False, s_time = t3, s_quit = False\<rparr>] s;
             e = [Lit ''['', Now ''%Y-%m-%d %H:%M:%S.%f'', Lit ''] '',
                  Lit ''Mode 0: Object detected, brake lights ON'']
         in effects s' = effects s @
              [Print [Lit ''['', Now ''%H:%M:%S'', Lit ''] BRAKE LIGHTS ON''], Print e, Print e,
               Print [Lit ''['', Now ''%H:%M:%S'', Lit ''] BRAKE LIGHTS OFF'']] \<and>
            log_messages s' = log_messages s @ [e, e] \<and>
            published (effects s') = published (effects s) \<and>
            \<not> brake_lights_on s'"
  using assms
  by (simp add: Let_def handle_driving_mode_def turn_on_brake_lights_def
      turn_off_brake_lights_def prim_fields published_append)

theorem single_mode_true_true_false_witness:
  "let s = (MotionDetector_init 0 25 500 1)\<lparr>running := True\<rparr>;
       s' = process_frame
              [\<lparr>s_ret = True, s_motion = True, s_time = 10, s_quit = False\<rparr>,
               \<lparr>s_ret = True, s_motion = True, s_time = 11, s_quit = False\<rparr>,
               \<lparr>s_ret = True, s_motion = False, s_time = 12, s_quit = False\<rparr>] s;
       e = [Lit ''['', Now ''%Y-%m-%d %H:%M:%S.%f'', Lit ''] '',
            Lit ''Mode 0: Object detected, brake lights ON'']
   in running s \<and> driving_mode s = 0 \<and> \<not> brake_lights_on s \<and>
      effects s' =
        [Print [Lit ''['', Now ''%H:%M:%S'', Lit ''] BRAKE LIGHTS ON''], Print e, Print e,
         Print [Lit ''['', Now ''%H:%M:%S'', Lit ''] BRAKE LIGHTS OFF'']] \<and>
      published (effects s') = [] \<and>
      \<not> brake_lights_on s'"
proof -
  let ?s = "(MotionDetector_init 0 25 500 1)\<lparr>running := True\<rparr>"
  have h1: "running ?s" by simp
  have h2: "driving_mode ?s = 0" by (simp add: MotionDetector_init_def)
  have h3: "\<not> brake_lights_on ?s" by (simp add: MotionDetector_init_def)
  from single_mode_true_true_false [OF h1 h2 h3, of 10 11 12] h1 h2 h3
  show ?thesis by (simp add: Let_def MotionDetector_init_def)
qed

text \<open>
  Claim C7 as it was written has one log entry for the lights going on and one for the
  lights going off. The log of a new object in mode 0 after the three samples holds two
  entries, both for "brake lights ON", and none for the lights going off.
\<close>

theorem single_mode_log_has_two_on_entries:
  "log_messages
     (process_frame
        [\<lparr>s_ret = True, s_motion = True, s_time = 1, s_quit = False\<rparr>,
         \<lparr>s_ret = True, s_motion = True, s_time = 2, s_quit = False\<rparr>,
         \<lparr>s_ret = True, s_motion = False, s_time = 3, s_quit = False\<rparr>]
        ((MotionDetector_init 0 25 500 1)\<lparr>running := True\<rparr>)) =
     [[Lit ''['', Now ''%Y-%m-%d %H:%M:%S.%f'', Lit ''] '',
       Lit ''Mode 0: Object detected, brake lights ON''],
      [Lit ''['', Now ''%Y-%m-%d %H:%M:%S.%f'', Lit ''] '',
       Lit ''Mode 0: Object detected, brake lights ON'']]"
  by (simp add: MotionDetector_init_def Let_def handle_driving_mode_def
      turn_on_brake_lights_def turn_off_brake_lights_def prim_fields)

subsection \<open>C8: a MEMBER ignores its own sensor\<close>

text \<open>
  Claim C8. In mode 2 (MEMBER) \<open>handle_driving_mode\<close> does nothing with the sample,
  whatever it is: the object, with the sample stored in \<open>motion_detected\<close>, comes back
  unchanged, so the brake lights keep their state and nothing is published, printed or
  logged; the same holds for a whole iteration of the sensing loop. In this mode the only
  calls after which the brake lights differ are the warning handlers (and the two brake
  methods themselves, which the sensing path does not reach).
\<close>

theorem member_ignores_samples:
  assumes "driving_mode s = 2"
  shows "handle_driving_mode now (s\<lparr>motion_detected := b\<rparr>) = s\<lparr>motion_detected := b\<rparr> \<and>
         (running s \<longrightarrow>
            process_frame [\<lparr>s_ret = True, s_motion = b, s_time = now, s_quit = q\<rparr>] s =
              s\<lparr>motion_detected := b\<rparr>) \<and>
         (\<forall>c s'. step c s = Inr s' \<and> brake_lights_on s' \<noteq> brake_lights_on s \<longrightarrow>
            c = Turn_on_brake_lights \<or> c = Turn_off_brake_lights \<or>
            (\<exists>t. c = Handle_warning_message t) \<or> (\<exists>ch d. c = Lcm_warning ch d))"
proof -
  have a: "handle_driving_mode now (s\<lparr>motion_detected := b\<rparr>) = s\<lparr>motion_detected := b\<rparr>"
    using assms by (simp add: handle_driving_mode_def)
  have b: "running s \<longrightarrow>
            process_frame [\<lparr>s_ret = True, s_motion = b, s_time = now, s_quit = q\<rparr>] s =
              s\<lparr>motion_detected := b\<rparr>"
    using a by (simp add: Let_def)
  have c: "\<forall>c s'. step c s = Inr s' \<and> brake_lights_on s' \<noteq> brake_lights_on s \<longrightarrow>
            c = Turn_on_brake_lights \<or> c = Turn_off_brake_lights \<or>
            (\<exists>t. c = Handle_warning_message t) \<or> (\<exists>ch d. c = Lcm_warning ch d)"
    using step_member_brake [OF assms] by blast
  from a b c show ?thesis by blast
qed

theorem member_ignores_samples_witness:
  "let s = (MotionDetector_init 0 25 500 1)\<lparr>driving_mode := 2, running := True\<rparr>
   in driving_mode s = 2 \<and> running s \<and>
      handle_driving_mode 10 (s\<lparr>motion_detected := True\<rparr>) = s\<lparr>motion_detected := True\<rparr> \<and>
      process_frame [\<lparr>s_ret = True, s_motion = True, s_time = 10, s_quit = False\<rparr>] s =
        s\<lparr>motion_detected := True\<rparr>"
proof -
  let ?s = "(MotionDetector_init 0 25 500 1)\<lparr>driving_mode := 2, running := True\<rparr>"
  have h1: "driving_mode ?s = 2" by simp
  have h2: "running ?s" by simp
  from member_ignores_samples [OF h1, of 10 True False] h1 h2
  show ?thesis by (simp add: Let_def del: process_frame.simps)
qed

subsection \<open>C10: the driving mode is always 0, 1 or 2\<close>

text \<open>
  Claim C10. A new object has driving mode 0. Whatever calls are made on it, with
  whatever arguments, in whatever order, none of them raises, and afterwards the driving
  mode is 0, 1 or 2, so that looking it up in the table of mode names finds a name. (A
  lookup that failed in \<open>set_driving_mode\<close> or \<open>show_status\<close> would make the history
  end in \<open>Inl IndexError\<close>.)
\<close>

theorem driving_mode_in_range:
  "driving_mode (MotionDetector_init cam thr area vid) = 0 \<and>
   (\<exists>s. run cs (MotionDetector_init cam thr area vid) = Inr s \<and>
         driving_mode s \<in> {0, 1, 2} \<and>
         (\<exists>name. py_getitem mode_names (driving_mode s) = Inr name))"
proof -
  have init: "driving_mode (MotionDetector_init cam thr area vid) = 0"
    by (simp add: MotionDetector_init_def)
  then have "driving_mode (MotionDetector_init cam thr area vid) \<in> {0, 1, 2}" by simp
  from run_returns [OF this]
  obtain s where s: "run cs (MotionDetector_init cam thr area vid) = Inr s"
    "driving_mode s \<in> {0, 1, 2}" by blast
  from s(2) py_getitem_mode_names
  have "\<exists>name. py_getitem mode_names (driving_mode s) = Inr name" by auto
  with s init show ?thesis by blast
qed

theorem driving_mode_in_range_witness:
  "\<exists>s. run [Set_driving_mode 2 5, Set_driving_mode 7 6, Show_status]
          (MotionDetector_init 0 25 500 1) = Inr s \<and>
        driving_mode s \<in> {0, 1, 2} \<and>
        (\<exists>name. py_getitem mode_names (driving_mode s) = Inr name)"
  using driving_mode_in_range
          [of 0 25 500 1 "[Set_driving_mode 2 5, Set_driving_mode 7 6, Show_status]"]
  by blast

end
